theory Spec2Isabelle
  imports Main
begin

section \<open>Values, exceptions and effects\<close>

text \<open>
  A Python string is a list of code points; the model covers the code points below 256,
  one \<^typ>\<open>char\<close> each.

  An exception is its class and its message.  A message written in the source as an
  f-string keeps its parts: the literal text, and a \<open>{name!r}\<close> field with the value
  that is formatted.  The classes that the source tests for or raises are constructors of
  their own; \<open>OtherClass\<close> stands for a class that derives from none of them, so that
  \<open>isinstance\<close> is a test of the constructor.
\<close>

datatype fpart = Lit string | Repr "string option"

datatype exc_class =
    TestSuccess
  | AssertionError
  | RuntimeError
  | TypeError
  | ValueError
  | SyntaxError
  | OtherClass string

datatype py_exception = Exc exc_class "fpart list"

text \<open>
  The values that \<open>ast.literal_eval\<close> produces.  A float is \<open>m * 2 ^ e\<close>, given by
  \<open>m\<close> and \<open>e\<close>.  \<open>PyOther\<close> holds the \<open>repr\<close> of a value of any other type
  (bytes, complex, tuple, list, dict, set, \<open>None\<close>, \<open>Ellipsis\<close>).
\<close>

datatype py_value =
    PyBool bool
  | PyInt int
  | PyFloat int int
  | PyStr string
  | PyOther string

text \<open>
  The result of running a function: it returns, it executes one of its own \<open>raise\<close>
  statements, or an exception escapes from a function it calls.
\<close>

datatype 'a outcome = Returned 'a | Raised py_exception | Propagated py_exception

datatype log_level = INFO | ERROR

datatype regression_mode = TESTCASE

text \<open>
  The calls that a function makes on its collaborators, in the order in which it makes
  them.  A function of the model returns the calls made up to the point where it returns
  or raises.
\<close>

datatype event =
    TaskLog nat log_level string
  | AbortTest py_exception
  | Log log_level string "py_value list"
  | Warn string
  | RandomSeed py_value
  | GetRootHandle "string option"
  | NewRegressionManager
  | SetupPytestAssertionRewriting
  | DiscoverTests "string list"
  | AddFilters "string list"
  | SetMode regression_mode

section \<open>The task done callback\<close>

text \<open>
  A task as \<open>_task_done_callback\<close> reads it: \<open>cancelled()\<close>, the trigger \<open>complete\<close>,
  \<open>exception()\<close> and the logger \<open>log\<close>, which is named by the task's number.  The
  scheduler's \<open>_trigger2tasks\<close> is a dictionary from a trigger to the tasks that wait
  for it.
\<close>

type_synonym trigger = nat

record task =
  task_id :: nat
  cancelled :: bool
  complete :: trigger
  exception :: "py_exception option"

record scheduler =
  trigger2tasks :: "trigger \<rightharpoonup> nat list"

fun isinstance_TestSuccess_AssertionError :: "py_exception \<Rightarrow> bool" where
  "isinstance_TestSuccess_AssertionError (Exc TestSuccess _) = True"
| "isinstance_TestSuccess_AssertionError (Exc AssertionError _) = True"
| "isinstance_TestSuccess_AssertionError (Exc _ _) = False"

definition task_done_callback :: "scheduler \<Rightarrow> task \<Rightarrow> event list" where
  "task_done_callback sch t =
     (if cancelled t then []
      else if complete t \<in> dom (trigger2tasks sch) then []
      else (case exception t of
              None \<Rightarrow> []
            | Some e \<Rightarrow>
                if isinstance_TestSuccess_AssertionError e
                then [TaskLog (task_id t) INFO ''Test stopped by this task'', AbortTest e]
                else [TaskLog (task_id t) ERROR ''Exception raised by this task'', AbortTest e]))"

text \<open>
  The tasks that are suspended on a trigger, read from the scheduler's dictionary: the
  list under the key, and none when the key is absent.  The scheduler keeps no key with an
  empty list (it deletes the key with its last waiter); \<open>scheduler_inv\<close> states that.
\<close>

definition waiting_tasks :: "scheduler \<Rightarrow> trigger \<Rightarrow> nat list" where
  "waiting_tasks sch c = (case trigger2tasks sch c of None \<Rightarrow> [] | Some ts \<Rightarrow> ts)"

definition scheduler_inv :: "scheduler \<Rightarrow> bool" where
  "scheduler_inv sch = ([] \<notin> ran (trigger2tasks sch))"

definition is_AbortTest :: "event \<Rightarrow> bool" where
  "is_AbortTest ev = (case ev of AbortTest _ \<Rightarrow> True | _ \<Rightarrow> False)"

section \<open>Strings\<close>

text \<open>
  \<open>str.isspace\<close> on one code point below 256: the ASCII whitespace \<open>0x09\<close> to
  \<open>0x0D\<close>, \<open>0x1C\<close> to \<open>0x20\<close>, and \<open>0x85\<close>, \<open>0xA0\<close>.  \<open>str.strip()\<close> removes
  the whitespace at both ends.
\<close>

definition isspace :: "char \<Rightarrow> bool" where
  "isspace c =
     (let n = (of_char c :: nat)
      in (9 \<le> n \<and> n \<le> 13) \<or> (28 \<le> n \<and> n \<le> 32) \<or> n = 133 \<or> n = 160)"

definition strip :: "string \<Rightarrow> string" where
  "strip s = rev (dropWhile isspace (rev (dropWhile isspace s)))"

definition startswith :: "string \<Rightarrow> string \<Rightarrow> bool" where
  "startswith s prefix = (take (length prefix) s = prefix)"

text \<open>
  \<open>s.split(sep)\<close> and \<open>s.split(sep, 1)\<close> for a separator of one character: all the
  pieces between separators, and the pieces before and after the first separator (the
  whole string alone when it has none).
\<close>

fun py_split :: "char \<Rightarrow> string \<Rightarrow> string list" where
  "py_split sep [] = [[]]"
| "py_split sep (c # cs) =
     (if c = sep then [] # py_split sep cs
      else (c # hd (py_split sep cs)) # tl (py_split sep cs))"

definition py_split1 :: "char \<Rightarrow> string \<Rightarrow> string list" where
  "py_split1 sep s =
     (case dropWhile (\<lambda>c. c \<noteq> sep) s of
        [] \<Rightarrow> [s]
      | _ # rest \<Rightarrow> [takeWhile (\<lambda>c. c \<noteq> sep) s, rest])"

section \<open>Plusargs\<close>

text \<open>
  \<open>_process_plusargs\<close> fills the dictionary \<open>plusargs\<close>, of type
  \<open>Dict[str, Union[bool, str]]\<close>, from \<open>cocotb.argv\<close>.  The assignment
  \<open>(name, value) = ...\<close> unpacks a list of exactly two elements and fails with a
  \<open>ValueError\<close> on any other.
\<close>

datatype plusarg = PlusBool bool | PlusStr string

fun process_plusargs_loop ::
  "string list \<Rightarrow> (string \<rightharpoonup> plusarg) \<Rightarrow> (string \<rightharpoonup> plusarg) outcome" where
  "process_plusargs_loop [] plusargs = Returned plusargs"
| "process_plusargs_loop (option # argv) plusargs =
     (if startswith option ''+'' then
        (if CHR ''='' \<in> set option then
           (case py_split1 CHR ''='' (drop 1 option) of
              [name, val] \<Rightarrow> process_plusargs_loop argv (plusargs(name \<mapsto> PlusStr val))
            | _ \<Rightarrow> Propagated (Exc ValueError [Lit ''not enough values to unpack'']))
         else process_plusargs_loop argv (plusargs(drop 1 option \<mapsto> PlusBool True)))
      else process_plusargs_loop argv plusargs)"

definition process_plusargs :: "string list \<Rightarrow> (string \<rightharpoonup> plusarg) outcome" where
  "process_plusargs argv = process_plusargs_loop argv Map.empty"

section \<open>Creating a task\<close>

text \<open>
  The argument of \<open>create_task\<close> by the tests that the function makes on it: a
  \<open>Task\<close>, a coroutine (given by a number), a coroutine function (given by its
  \<open>str\<close>), an async generator (given by its \<open>__qualname__\<close>), or anything else (given
  by the \<open>str\<close> of its type and its \<open>repr\<close>).  The constructor \<open>cocotb.task.Task\<close>
  is a parameter.
\<close>

datatype py_object =
    TaskObject task
  | CoroutineObject nat
  | CoroutineFunction string
  | AsyncGenerator string
  | OtherObject string string

definition create_task :: "(nat \<Rightarrow> task) \<Rightarrow> py_object \<Rightarrow> task outcome" where
  "create_task Task_init coro =
     (case coro of
        TaskObject t \<Rightarrow> Returned t
      | CoroutineObject c \<Rightarrow> Returned (Task_init c)
      | CoroutineFunction f \<Rightarrow>
          Raised (Exc TypeError
            [Lit ''Coroutine function '', Lit f,
             Lit '' should be called prior to being scheduled.''])
      | AsyncGenerator q \<Rightarrow>
          Raised (Exc TypeError
            [Lit q, Lit '' is an async generator, not a coroutine. '',
             Lit ''You likely used the yield keyword instead of await.''])
      | OtherObject ty r \<Rightarrow>
          Raised (Exc TypeError
            [Lit ''Attempt to add an object of type '', Lit ty, Lit '' to the scheduler, '',
             Lit ''which isn't a coroutine: '', Lit r, Lit [CHR 0x0A]]))"

section \<open>The random seed\<close>

text \<open>
  \<open>_setup_random_seed\<close> reads the environment and the plusargs, and returns the value
  it stores in \<open>_random_seed\<close>.  Its parameters are \<open>ast.literal_eval\<close> (a function of
  the Python library: \<open>Inl\<close> the exception it raises, \<open>Inr\<close> the value), and
  \<open>int(time.time())\<close>.  \<open>isinstance(seed, int)\<close> holds for an \<open>int\<close> and for a
  \<open>bool\<close>.  \<open>random.seed\<close> and \<open>log.info\<close> are calls in the trace; what they do
  with a value that is not a number is not part of the model.
\<close>

type_synonym environ = "string \<rightharpoonup> string"

definition isinstance_int :: "py_value \<Rightarrow> bool" where
  "isinstance_int v = (case v of PyInt _ \<Rightarrow> True | PyBool _ \<Rightarrow> True | _ \<Rightarrow> False)"

definition setup_random_seed ::
  "(string \<Rightarrow> py_exception + py_value) \<Rightarrow> int \<Rightarrow> environ \<Rightarrow> (string \<rightharpoonup> plusarg)
     \<Rightarrow> event list \<times> py_value outcome" where
  "setup_random_seed literal_eval now env plusargs =
     (case env ''COCOTB_RANDOM_SEED'' of
        Some seed_envvar \<Rightarrow>
          (case literal_eval seed_envvar of
             Inl e \<Rightarrow> ([], Propagated e)
           | Inr seed \<Rightarrow>
               ([Log INFO ''Seeding Python random module with supplied seed %d'' [seed],
                 RandomSeed seed], Returned seed))
      | None \<Rightarrow>
          (case env ''RANDOM_SEED'' of
             Some seed_envvar \<Rightarrow>
               (case literal_eval seed_envvar of
                  Inl e \<Rightarrow>
                    ([Warn ''RANDOM_SEED is deprecated in favor of COCOTB_RANDOM_SEED''],
                     Propagated e)
                | Inr seed \<Rightarrow>
                    ([Warn ''RANDOM_SEED is deprecated in favor of COCOTB_RANDOM_SEED'',
                      Log INFO ''Seeding Python random module with supplied seed %d'' [seed],
                      RandomSeed seed], Returned seed))
           | None \<Rightarrow>
               (case
                  (case plusargs ''ntb_random_seed'' of
                     Some plusarg_seed \<Rightarrow>
                       (case plusarg_seed of
                          PlusBool _ \<Rightarrow>
                            Raised (Exc TypeError
                              [Lit ''ntb_random_seed plusarg is not a valid seed value.''])
                        | PlusStr s \<Rightarrow>
                            (case literal_eval s of
                               Inl e \<Rightarrow> Propagated e
                             | Inr seed \<Rightarrow>
                                 if \<not> isinstance_int seed
                                 then Raised (Exc TypeError
                                   [Lit ''ntb_random_seed plusargs is not a valid seed value.''])
                                 else Returned seed))
                   | None \<Rightarrow>
                       (case plusargs ''seed'' of
                          Some plusarg_seed \<Rightarrow>
                            (case plusarg_seed of
                               PlusBool _ \<Rightarrow>
                                 Raised (Exc TypeError
                                   [Lit ''seed plusarg is not a valid seed value.''])
                             | PlusStr s \<Rightarrow>
                                 (case literal_eval s of
                                    Inl e \<Rightarrow> Propagated e
                                  | Inr seed \<Rightarrow>
                                      if \<not> isinstance_int seed
                                      then Raised (Exc TypeError
                                        [Lit ''seed plusargs is not a valid seed value.''])
                                      else Returned seed))
                        | None \<Rightarrow> Returned (PyInt now)))
                of
                  Returned seed \<Rightarrow>
                    ([Log INFO ''Seeding Python random module with %d'' [seed],
                      RandomSeed seed], Returned seed)
                | Raised e \<Rightarrow> ([], Raised e)
                | Propagated e \<Rightarrow> ([], Propagated e))))"

text \<open>
  An evaluator given by a table of literals and their values, for running the model on
  concrete literals: on a string of the table it returns what \<open>ast.literal_eval\<close>
  returns there.  It is not consulted outside the table.
\<close>

definition literal_eval_table ::
  "(string \<times> py_value) list \<Rightarrow> string \<Rightarrow> py_exception + py_value" where
  "literal_eval_table tbl s =
     (case map_of tbl s of
        Some v \<Rightarrow> Inr v
      | None \<Rightarrow> Inl (Exc ValueError [Lit ''malformed node or string'']))"

definition is_Warn :: "event \<Rightarrow> bool" where
  "is_Warn ev = (case ev of Warn _ \<Rightarrow> True | _ \<Rightarrow> False)"

section \<open>The root handle\<close>

text \<open>
  \<open>_setup_root_handle\<close> computes \<open>root_name\<close> from \<open>COCOTB_TOPLEVEL\<close>, asks the
  simulator for the handle, and stores it in \<open>top\<close>.  The simulator's
  \<open>get_root_handle\<close> is a parameter; it returns a handle or \<open>None\<close>.  The index
  \<open>[1]\<close> fails with an \<open>IndexError\<close> on a list of fewer than two elements.
\<close>

datatype sim_handle = SimHandle nat

definition setup_root_handle ::
  "(string option \<Rightarrow> nat option) \<Rightarrow> environ \<Rightarrow> event list \<times> sim_handle outcome" where
  "setup_root_handle get_root_handle env =
     (case
        (case env ''COCOTB_TOPLEVEL'' of
           None \<Rightarrow> Returned None
         | Some root_name0 \<Rightarrow>
             (let root_name = strip root_name0
              in if root_name = [] then Returned None
                 else if CHR ''.'' \<in> set root_name then
                   (case py_split1 CHR ''.'' root_name of
                      _ # r # _ \<Rightarrow> Returned (Some r)
                    | _ \<Rightarrow> Propagated (Exc (OtherClass ''IndexError'')
                                        [Lit ''list index out of range'']))
                 else Returned (Some root_name)))
      of
        Returned root_name \<Rightarrow>
          (case get_root_handle root_name of
             None \<Rightarrow>
               ([GetRootHandle root_name],
                Raised (Exc RuntimeError [Lit ''Can not find root handle '', Repr root_name]))
           | Some handle \<Rightarrow> ([GetRootHandle root_name], Returned (SimHandle handle)))
      | Raised e \<Rightarrow> ([], Raised e)
      | Propagated e \<Rightarrow> ([], Propagated e))"

section \<open>The regression manager\<close>

text \<open>
  \<open>_setup_regression_manager\<close> creates the regression manager and calls it; the calls
  are the trace.  \<open>discover_tests\<close> is a parameter: the exception that the regression
  manager raises for a list of modules, or \<open>None\<close> when it returns.
\<close>

definition getenv_default :: "environ \<Rightarrow> string \<Rightarrow> string \<Rightarrow> string" where
  "getenv_default env name dflt = (case env name of None \<Rightarrow> dflt | Some v \<Rightarrow> v)"

definition setup_regression_manager ::
  "(string list \<Rightarrow> py_exception option) \<Rightarrow> environ \<Rightarrow> event list \<times> unit outcome" where
  "setup_regression_manager discover_tests env =
     (let module_str = getenv_default env ''COCOTB_TEST_MODULES'' []
      in if module_str = [] then
           ([NewRegressionManager],
            Raised (Exc RuntimeError
              [Lit (''Environment variable COCOTB_TEST_MODULES, which defines the module(s) ''
                    @ ''to execute, is not defined or empty.'')]))
         else
           (let modules = map strip (filter (\<lambda>s. strip s \<noteq> []) (py_split CHR '','' module_str));
                evs = [NewRegressionManager, SetupPytestAssertionRewriting, DiscoverTests modules]
            in case discover_tests modules of
                 Some e \<Rightarrow> (evs, Propagated e)
               | None \<Rightarrow>
                   (let testcase_str = strip (getenv_default env ''COCOTB_TESTCASE'' []);
                        test_filter_str = strip (getenv_default env ''COCOTB_TEST_FILTER'' [])
                    in if testcase_str \<noteq> [] \<and> test_filter_str \<noteq> [] then
                         (evs, Raised (Exc RuntimeError
                            [Lit ''Specify only one of COCOTB_TESTCASE or COCOTB_TEST_FILTER'']))
                       else if testcase_str \<noteq> [] then
                         (evs @
                          [Warn ''TESTCASE is deprecated in favor of COCOTB_TEST_FILTER'',
                           AddFilters
                             (map (\<lambda>s. strip s @ ''$'')
                                (filter (\<lambda>s. strip s \<noteq> []) (py_split CHR '','' testcase_str))),
                           SetMode TESTCASE], Returned ())
                       else if test_filter_str \<noteq> [] then
                         (evs @ [AddFilters [test_filter_str], SetMode TESTCASE], Returned ())
                       else (evs, Returned ()))))"

definition is_DiscoverTests :: "event \<Rightarrow> bool" where
  "is_DiscoverTests ev = (case ev of DiscoverTests _ \<Rightarrow> True | _ \<Rightarrow> False)"


text \<open>
  Whether a run ended in an exception, and a regression manager whose \<open>discover_tests\<close>
  returns for every list of modules.
\<close>

definition raises :: "'a outcome \<Rightarrow> bool" where
  "raises r = (case r of Returned _ \<Rightarrow> False | Raised _ \<Rightarrow> True | Propagated _ \<Rightarrow> True)"

definition discover_tests_returns :: "string list \<Rightarrow> py_exception option" where
  "discover_tests_returns modules = None"

section \<open>Properties of the task done callback\<close>

lemma no_waiting_tasks_no_key:
  assumes "scheduler_inv sch" and "waiting_tasks sch c = []"
  shows "c \<notin> dom (trigger2tasks sch)"
proof
  assume "c \<in> dom (trigger2tasks sch)"
  then obtain ts where ts: "trigger2tasks sch c = Some ts" by blast
  with assms(2) have "ts = []" by (simp add: waiting_tasks_def)
  with ts have "[] \<in> ran (trigger2tasks sch)" by (auto simp: ran_def)
  with assms(1) show False by (simp add: scheduler_inv_def)
qed

lemma waiting_tasks_key:
  "waiting_tasks sch c \<noteq> [] \<Longrightarrow> c \<in> dom (trigger2tasks sch)"
  by (auto simp: waiting_tasks_def split: option.splits)

text \<open>
  C1. A task that is not cancelled, that no task waits for, and that finished with an
  exception that is neither a \<open>TestSuccess\<close> nor an \<open>AssertionError\<close>: the callback logs
  at error level on the task's logger and then calls \<open>_abort_test\<close> once, with that
  exception, and does nothing else.
\<close>

theorem unobserved_failure_aborts_once:
  assumes "\<not> cancelled t"
    and "scheduler_inv sch"
    and "waiting_tasks sch (complete t) = []"
    and "exception t = Some e"
    and "\<not> isinstance_TestSuccess_AssertionError e"
  shows "task_done_callback sch t =
           [TaskLog (task_id t) ERROR ''Exception raised by this task'', AbortTest e]"
proof -
  have "complete t \<notin> dom (trigger2tasks sch)"
    using assms(2,3) by (rule no_waiting_tasks_no_key)
  with assms(1,4,5) show ?thesis
    by (simp add: task_done_callback_def)
qed

theorem unobserved_failure_aborts_once_witness:
  "scheduler_inv \<lparr>trigger2tasks = Map.empty\<rparr>
   \<and> waiting_tasks \<lparr>trigger2tasks = Map.empty\<rparr> 8 = []
   \<and> \<not> isinstance_TestSuccess_AssertionError (Exc ValueError [Lit ''bad value''])
   \<and> task_done_callback \<lparr>trigger2tasks = Map.empty\<rparr>
     \<lparr>task_id = 3, cancelled = False, complete = 8,
      exception = Some (Exc ValueError [Lit ''bad value''])\<rparr>
   = [TaskLog 3 ERROR ''Exception raised by this task'',
      AbortTest (Exc ValueError [Lit ''bad value''])]"
  using unobserved_failure_aborts_once
    [of "\<lparr>task_id = 3, cancelled = False, complete = 8,
          exception = Some (Exc ValueError [Lit ''bad value''])\<rparr>"
        "\<lparr>trigger2tasks = Map.empty\<rparr>"
        "Exc ValueError [Lit ''bad value'']"]
  by (simp add: scheduler_inv_def waiting_tasks_def)

text \<open>
  C2. For a cancelled task the callback makes no call at all: no \<open>_abort_test\<close> and no
  logging, whatever exception the task holds and whoever waits for it.
\<close>

theorem cancelled_task_is_silent:
  assumes "cancelled t"
  shows "task_done_callback sch t = []"
  using assms by (simp add: task_done_callback_def)

theorem cancelled_task_is_silent_witness:
  "task_done_callback \<lparr>trigger2tasks = Map.empty\<rparr>
     \<lparr>task_id = 3, cancelled = True, complete = 8,
      exception = Some (Exc ValueError [Lit ''bad value''])\<rparr> = []"
  using cancelled_task_is_silent
    [of "\<lparr>task_id = 3, cancelled = True, complete = 8,
          exception = Some (Exc ValueError [Lit ''bad value''])\<rparr>"
        "\<lparr>trigger2tasks = Map.empty\<rparr>"]
  by simp

text \<open>
  C3. For a task that is not cancelled and that at least one task waits for, the callback
  makes no call, so no \<open>_abort_test\<close>, also when the task finished with an exception.
\<close>

theorem awaited_task_never_aborts:
  assumes "\<not> cancelled t"
    and "waiting_tasks sch (complete t) \<noteq> []"
  shows "task_done_callback sch t = []
         \<and> \<not> list_ex is_AbortTest (task_done_callback sch t)"
proof -
  have "complete t \<in> dom (trigger2tasks sch)"
    using assms(2) by (rule waiting_tasks_key)
  then have "task_done_callback sch t = []"
    by (simp add: task_done_callback_def)
  then show ?thesis by simp
qed

theorem awaited_task_never_aborts_witness:
  "waiting_tasks \<lparr>trigger2tasks = [8 \<mapsto> [5]]\<rparr> 8 \<noteq> []
   \<and> task_done_callback \<lparr>trigger2tasks = [8 \<mapsto> [5]]\<rparr>
     \<lparr>task_id = 3, cancelled = False, complete = 8,
      exception = Some (Exc ValueError [Lit ''bad value''])\<rparr> = []"
  using awaited_task_never_aborts
    [of "\<lparr>task_id = 3, cancelled = False, complete = 8,
          exception = Some (Exc ValueError [Lit ''bad value''])\<rparr>"
        "\<lparr>trigger2tasks = [8 \<mapsto> [5]]\<rparr>"]
  by (simp add: waiting_tasks_def)

section \<open>Properties of the string functions\<close>

lemma py_split1_found:
  "sep \<in> set s \<Longrightarrow>
   py_split1 sep s = [takeWhile (\<lambda>c. c \<noteq> sep) s, tl (dropWhile (\<lambda>c. c \<noteq> sep) s)]"
  by (cases "dropWhile (\<lambda>c. c \<noteq> sep) s") (auto simp: py_split1_def dropWhile_eq_Nil_conv)

lemma py_split1_first:
  "sep \<notin> set a \<Longrightarrow> py_split1 sep (a @ sep # b) = [a, b]"
proof -
  assume a: "sep \<notin> set a"
  have "takeWhile (\<lambda>c. c \<noteq> sep) (a @ sep # b) = a"
    using a by (induction a) auto
  moreover have "dropWhile (\<lambda>c. c \<noteq> sep) (a @ sep # b) = sep # b"
    using a by (induction a) auto
  ultimately show ?thesis by (simp add: py_split1_def)
qed

lemma dropWhile_all:
  "list_all P xs \<Longrightarrow> dropWhile P (xs @ ys) = dropWhile P ys"
  by (induction xs) auto

lemma dropWhile_stops:
  "ys = [] \<or> \<not> P (hd ys) \<Longrightarrow> dropWhile P ys = ys"
  by (cases ys) auto

lemma strip_whitespace_only:
  assumes "list_all isspace s"
  shows "strip s = []"
proof -
  have d: "dropWhile isspace s = []"
    using assms by (induction s) auto
  show ?thesis unfolding strip_def d by simp
qed

lemma strip_trims:
  assumes "list_all isspace l" and "list_all isspace r"
    and "core = [] \<or> (\<not> isspace (hd core) \<and> \<not> isspace (last core))"
  shows "strip (l @ core @ r) = core"
proof (cases "core = []")
  case True
  with assms(1,2) have "list_all isspace (l @ core @ r)" by simp
  then show ?thesis using True by (simp only: strip_whitespace_only)
next
  case False
  with assms(3) have hd: "\<not> isspace (hd core)" and lst: "\<not> isspace (last core)" by auto
  have "dropWhile isspace (l @ core @ r) = dropWhile isspace (core @ r)"
    using assms(1) by (rule dropWhile_all)
  also have "\<dots> = core @ r"
    using False hd by (intro dropWhile_stops) simp
  finally have 1: "dropWhile isspace (l @ core @ r) = core @ r" .
  have "list_all isspace (rev r)" using assms(2) by (simp add: list_all_iff)
  then have "dropWhile isspace (rev r @ rev core) = dropWhile isspace (rev core)"
    by (rule dropWhile_all)
  also have "\<dots> = rev core"
    using False lst by (intro dropWhile_stops) (simp add: hd_rev)
  finally show ?thesis by (simp add: strip_def 1)
qed

lemma py_split1_second:
  "sep \<in> set s \<Longrightarrow> \<exists>a b. py_split1 sep s = [a, b]"
  by (simp add: py_split1_found)

lemma py_split_nonempty: "py_split sep s \<noteq> []"
  by (induction s) auto

lemma py_split_piece_chars:
  "p \<in> set (py_split sep s) \<Longrightarrow> c \<in> set p \<Longrightarrow> c \<in> set s \<and> c \<noteq> sep"
proof (induction s arbitrary: p)
  case Nil
  then show ?case by simp
next
  case (Cons x xs)
  obtain q qs where q: "py_split sep xs = q # qs"
    using py_split_nonempty [of sep xs] by (cases "py_split sep xs") auto
  show ?case
  proof (cases "x = sep")
    case True
    with Cons.prems q have "p \<in> set (py_split sep xs)" by auto
    with Cons.IH Cons.prems(2) show ?thesis by auto
  next
    case False
    with Cons.prems(1) q have "p = x # q \<or> p \<in> set qs" by auto
    then show ?thesis
    proof
      assume "p = x # q"
      with Cons.prems(2) have "c = x \<or> c \<in> set q" by auto
      moreover have "q \<in> set (py_split sep xs)" using q by simp
      ultimately show ?thesis using Cons.IH False by auto
    next
      assume "p \<in> set qs"
      then have "p \<in> set (py_split sep xs)" using q by simp
      with Cons.IH Cons.prems(2) show ?thesis by auto
    qed
  qed
qed

lemma blank_list_has_no_entries:
  assumes "list_all (\<lambda>c. c = sep \<or> isspace c) s"
  shows "filter (\<lambda>p. strip p \<noteq> []) (py_split sep s) = []"
proof -
  have "strip p = []" if "p \<in> set (py_split sep s)" for p
  proof -
    have "isspace c" if "c \<in> set p" for c
      using py_split_piece_chars [OF \<open>p \<in> set (py_split sep s)\<close> that] assms
      by (auto simp: list_all_iff)
    then have "list_all isspace p" by (simp add: list_all_iff)
    then show ?thesis by (rule strip_whitespace_only)
  qed
  then show ?thesis by (simp add: filter_empty_conv)
qed

section \<open>Properties of the plusargs\<close>

lemma startswith_plus: "startswith s ''+'' \<longleftrightarrow> (\<exists>body. s = CHR ''+'' # body)"
  by (cases s) (auto simp: startswith_def)

lemma process_plusargs_loop_step:
  "\<exists>m. process_plusargs_loop [option] plusargs = Returned m"
proof (cases "startswith option ''+'' \<and> CHR ''='' \<in> set option")
  case True
  then obtain body where b: "option = CHR ''+'' # body" by (auto simp: startswith_plus)
  with True have "CHR ''='' \<in> set body" by auto
  then show ?thesis using True b by (simp add: py_split1_found)
next
  case False
  then show ?thesis by auto
qed

lemma process_plusargs_loop_append:
  "process_plusargs_loop (xs @ ys) plusargs =
     (case process_plusargs_loop xs plusargs of
        Returned m \<Rightarrow> process_plusargs_loop ys m
      | Raised e \<Rightarrow> Raised e
      | Propagated e \<Rightarrow> Propagated e)"
proof (induction xs arbitrary: plusargs)
  case Nil
  show ?case by simp
next
  case (Cons option xs)
  show ?case
    by (simp only: append_Cons process_plusargs_loop.simps Cons.IH)
       (simp split: list.split)
qed

lemma process_plusargs_loop_returns:
  "\<exists>m. process_plusargs_loop argv plusargs = Returned m"
proof (induction argv arbitrary: plusargs)
  case Nil
  show ?case by simp
next
  case (Cons option argv)
  obtain m where m: "process_plusargs_loop [option] plusargs = Returned m"
    using process_plusargs_loop_step by blast
  have "process_plusargs_loop (option # argv) plusargs =
        process_plusargs_loop ([option] @ argv) plusargs" by simp
  also have "\<dots> = process_plusargs_loop argv m"
    unfolding process_plusargs_loop_append by (simp only: m outcome.case)
  finally show ?case using Cons.IH by simp
qed

lemma process_plusargs_snoc:
  assumes "process_plusargs argv = Returned m"
  shows "process_plusargs (argv @ [option]) = process_plusargs_loop [option] m"
  using assms unfolding process_plusargs_def process_plusargs_loop_append by simp

text \<open>
  C7. The argument vector \<open>["+seed=99", "+foo", "+bar=baz=qux"]\<close> gives the dictionary
  \<open>{seed: "99", foo: True, bar: "baz=qux"}\<close>.  In general \<open>_process_plusargs\<close>
  always returns, starts from the empty dictionary, and treats one more option at the end
  of the vector as follows: \<open>+name=val\<close>, where \<open>name\<close> has no \<open>=\<close>, stores
  the string \<open>val\<close> under \<open>name\<close>, with every further \<open>=\<close> of \<open>val\<close> kept;
  \<open>+name\<close> without \<open>=\<close> stores \<open>True\<close>; an option that does not start with
  \<open>+\<close> changes nothing.  The later option replaces what an earlier one stored under
  the same name.
\<close>

theorem process_plusargs_parses:
  "process_plusargs [''+seed=99'', ''+foo'', ''+bar=baz=qux''] =
     Returned [''seed'' \<mapsto> PlusStr ''99'', ''foo'' \<mapsto> PlusBool True,
               ''bar'' \<mapsto> PlusStr ''baz=qux'']
   \<and> process_plusargs [] = Returned Map.empty
   \<and> (\<exists>m. process_plusargs argv = Returned m
        \<and> (CHR ''='' \<notin> set name \<longrightarrow>
             process_plusargs (argv @ [''+'' @ name @ ''='' @ val]) =
               Returned (m(name \<mapsto> PlusStr val)))
        \<and> (CHR ''='' \<notin> set name \<longrightarrow>
             process_plusargs (argv @ [''+'' @ name]) = Returned (m(name \<mapsto> PlusBool True)))
        \<and> (\<not> startswith option ''+'' \<longrightarrow>
             process_plusargs (argv @ [option]) = Returned m))"
proof (intro conjI)
  show "process_plusargs [''+seed=99'', ''+foo'', ''+bar=baz=qux''] =
     Returned [''seed'' \<mapsto> PlusStr ''99'', ''foo'' \<mapsto> PlusBool True,
               ''bar'' \<mapsto> PlusStr ''baz=qux'']"
    by (simp add: process_plusargs_def startswith_def py_split1_def)
  show "process_plusargs [] = Returned Map.empty"
    by (simp add: process_plusargs_def)
  obtain m where m: "process_plusargs argv = Returned m"
    using process_plusargs_loop_returns unfolding process_plusargs_def by blast
  have a: "CHR ''='' \<notin> set name \<longrightarrow>
             process_plusargs (argv @ [''+'' @ name @ ''='' @ val]) =
               Returned (m(name \<mapsto> PlusStr val))"
    by (simp add: process_plusargs_snoc [OF m] startswith_def py_split1_first)
  have b: "CHR ''='' \<notin> set name \<longrightarrow>
             process_plusargs (argv @ [''+'' @ name]) = Returned (m(name \<mapsto> PlusBool True))"
    by (simp add: process_plusargs_snoc [OF m] startswith_def)
  have c: "\<not> startswith option ''+'' \<longrightarrow> process_plusargs (argv @ [option]) = Returned m"
    by (simp add: process_plusargs_snoc [OF m])
  from m a b c show "\<exists>m. process_plusargs argv = Returned m
        \<and> (CHR ''='' \<notin> set name \<longrightarrow>
             process_plusargs (argv @ [''+'' @ name @ ''='' @ val]) =
               Returned (m(name \<mapsto> PlusStr val)))
        \<and> (CHR ''='' \<notin> set name \<longrightarrow>
             process_plusargs (argv @ [''+'' @ name]) = Returned (m(name \<mapsto> PlusBool True)))
        \<and> (\<not> startswith option ''+'' \<longrightarrow>
             process_plusargs (argv @ [option]) = Returned m)"
    by blast
qed

theorem process_plusargs_parses_witness:
  "CHR ''='' \<notin> set ''x'' \<and> \<not> startswith ''foo'' ''+''
   \<and> process_plusargs [''a'', ''+x=1'', ''+x=2=3''] = Returned [''x'' \<mapsto> PlusStr ''2=3'']
   \<and> process_plusargs [''a'', ''+x=1'', ''+x''] = Returned [''x'' \<mapsto> PlusBool True]
   \<and> process_plusargs [''a'', ''+x=1'', ''foo''] = Returned [''x'' \<mapsto> PlusStr ''1'']"
proof -
  have base: "process_plusargs [''a'', ''+x=1''] = Returned [''x'' \<mapsto> PlusStr ''1'']"
    by (simp add: process_plusargs_def startswith_def py_split1_def)
  have h: "CHR ''='' \<notin> set ''x''" "\<not> startswith ''foo'' ''+''"
    by (simp_all add: startswith_def)
  from process_plusargs_parses [of "[''a'', ''+x=1'']" "''x''" "''2=3''" "''foo''"]
  obtain m where m: "process_plusargs [''a'', ''+x=1''] = Returned m"
    and a: "CHR ''='' \<notin> set ''x'' \<longrightarrow>
            process_plusargs ([''a'', ''+x=1''] @ [''+'' @ ''x'' @ ''='' @ ''2=3'']) =
              Returned (m(''x'' \<mapsto> PlusStr ''2=3''))"
    and b: "CHR ''='' \<notin> set ''x'' \<longrightarrow>
            process_plusargs ([''a'', ''+x=1''] @ [''+'' @ ''x'']) =
              Returned (m(''x'' \<mapsto> PlusBool True))"
    and c: "\<not> startswith ''foo'' ''+'' \<longrightarrow>
            process_plusargs ([''a'', ''+x=1''] @ [''foo'']) = Returned m"
    by blast
  from m base have m_eq: "m = [''x'' \<mapsto> PlusStr ''1'']" by simp
  from a b c h show ?thesis unfolding m_eq by simp
qed

section \<open>Properties of creating a task\<close>

text \<open>
  C8. \<open>create_task\<close> returns a \<open>Task\<close> that it is given as it is: the same task,
  with no call of the constructor.  So applying \<open>create_task\<close> to the task that an
  application of \<open>create_task\<close> returned gives that task again.
\<close>

theorem create_task_of_task:
  "create_task Task_init (TaskObject t) = Returned t
   \<and> (create_task Task_init coro = Returned t' \<longrightarrow>
        create_task Task_init (TaskObject t') = Returned t')"
  by (simp add: create_task_def)

theorem create_task_of_task_witness:
  "create_task (\<lambda>c. \<lparr>task_id = c, cancelled = False, complete = c, exception = None\<rparr>)
     (CoroutineObject 4)
     = Returned \<lparr>task_id = 4, cancelled = False, complete = 4, exception = None\<rparr>
   \<and> create_task (\<lambda>c. \<lparr>task_id = c, cancelled = False, complete = c, exception = None\<rparr>)
       (TaskObject \<lparr>task_id = 4, cancelled = False, complete = 4, exception = None\<rparr>)
     = Returned \<lparr>task_id = 4, cancelled = False, complete = 4, exception = None\<rparr>"
  using create_task_of_task
    [of "\<lambda>c. \<lparr>task_id = c, cancelled = False, complete = c, exception = None\<rparr>"
        "\<lparr>task_id = 4, cancelled = False, complete = 4, exception = None\<rparr>"
        "CoroutineObject 4"
        "\<lparr>task_id = 4, cancelled = False, complete = 4, exception = None\<rparr>"]
  by (simp add: create_task_def)

section \<open>Properties of the random seed\<close>

lemma seed_from_primary_variable:
  assumes "env ''COCOTB_RANDOM_SEED'' = Some s" and "literal_eval s = Inr v"
  shows "setup_random_seed literal_eval now env plusargs =
           ([Log INFO ''Seeding Python random module with supplied seed %d'' [v],
             RandomSeed v], Returned v)"
  using assms by (simp add: setup_random_seed_def)

lemma seed_from_deprecated_variable:
  assumes "env ''COCOTB_RANDOM_SEED'' = None" and "env ''RANDOM_SEED'' = Some s"
    and "literal_eval s = Inr v"
  shows "setup_random_seed literal_eval now env plusargs =
           ([Warn ''RANDOM_SEED is deprecated in favor of COCOTB_RANDOM_SEED'',
             Log INFO ''Seeding Python random module with supplied seed %d'' [v],
             RandomSeed v], Returned v)"
  using assms by (simp add: setup_random_seed_def)

text \<open>
  C4, as the code has it.  With \<open>COCOTB_RANDOM_SEED\<close> set to \<open>42\<close> and
  \<open>RANDOM_SEED\<close> set to \<open>7\<close>, the seed is 42 and no deprecation warning is emitted:
  \<open>RANDOM_SEED\<close> is read, and the warning emitted, only when \<open>COCOTB_RANDOM_SEED\<close>
  is not set.
\<close>

theorem seed_primary_wins_without_warning:
  assumes "env ''COCOTB_RANDOM_SEED'' = Some ''42''"
    and "env ''RANDOM_SEED'' = Some ''7''"
    and "literal_eval ''42'' = Inr (PyInt 42)"
  shows "setup_random_seed literal_eval now env plusargs =
           ([Log INFO ''Seeding Python random module with supplied seed %d'' [PyInt 42],
             RandomSeed (PyInt 42)], Returned (PyInt 42))
         \<and> \<not> list_ex is_Warn (fst (setup_random_seed literal_eval now env plusargs))"
  using assms(1,3) by (simp add: seed_from_primary_variable is_Warn_def)

theorem seed_primary_wins_without_warning_witness:
  "map_of [(''COCOTB_RANDOM_SEED'', ''42''), (''RANDOM_SEED'', ''7'')] ''COCOTB_RANDOM_SEED''
     = Some ''42''
   \<and> map_of [(''COCOTB_RANDOM_SEED'', ''42''), (''RANDOM_SEED'', ''7'')] ''RANDOM_SEED''
     = Some ''7''
   \<and> literal_eval_table [(''42'', PyInt 42), (''7'', PyInt 7)] ''42'' = Inr (PyInt 42)
   \<and> setup_random_seed (literal_eval_table [(''42'', PyInt 42), (''7'', PyInt 7)]) 0
        (map_of [(''COCOTB_RANDOM_SEED'', ''42''), (''RANDOM_SEED'', ''7'')]) (map_of [])
      = ([Log INFO ''Seeding Python random module with supplied seed %d'' [PyInt 42],
          RandomSeed (PyInt 42)], Returned (PyInt 42))"
  using seed_primary_wins_without_warning
    [of "map_of [(''COCOTB_RANDOM_SEED'', ''42''), (''RANDOM_SEED'', ''7'')]"
        "literal_eval_table [(''42'', PyInt 42), (''7'', PyInt 7)]" 0 "map_of []"]
  by (simp add: literal_eval_table_def)

text \<open>
  C4, as the specification states it: the seed is 42 and a deprecation warning is emitted.
  On the code this does not hold for the two variables set to \<open>42\<close> and \<open>7\<close>.
\<close>

theorem seed_deprecation_warning_counterexample:
  "\<not> (snd (setup_random_seed (literal_eval_table [(''42'', PyInt 42), (''7'', PyInt 7)]) 0
             (map_of [(''COCOTB_RANDOM_SEED'', ''42''), (''RANDOM_SEED'', ''7'')]) (map_of []))
        = Returned (PyInt 42)
      \<and> list_ex is_Warn
          (fst (setup_random_seed (literal_eval_table [(''42'', PyInt 42), (''7'', PyInt 7)]) 0
             (map_of [(''COCOTB_RANDOM_SEED'', ''42''), (''RANDOM_SEED'', ''7'')]) (map_of []))))"
  by (simp add: setup_random_seed_def literal_eval_table_def is_Warn_def)

text \<open>
  C6. A value of \<open>COCOTB_RANDOM_SEED\<close> that is a literal but not an integer should be
  a fatal error.  The code accepts it: for \<open>3.5\<close> the function returns, and the float
  is the seed.  The same literal in the plusarg \<open>seed\<close> is rejected with a
  \<open>TypeError\<close>, by the test \<open>isinstance(seed, int)\<close> that the path of the
  environment variable does not make.
\<close>

theorem seed_variable_float_accepted:
  "setup_random_seed (literal_eval_table [(''3.5'', PyFloat 7 (- 1))]) 0
     (map_of [(''COCOTB_RANDOM_SEED'', ''3.5'')]) (map_of [])
   = ([Log INFO ''Seeding Python random module with supplied seed %d'' [PyFloat 7 (- 1)],
       RandomSeed (PyFloat 7 (- 1))], Returned (PyFloat 7 (- 1)))
   \<and> setup_random_seed (literal_eval_table [(''3.5'', PyFloat 7 (- 1))]) 0
       (map_of []) (map_of [(''seed'', PlusStr ''3.5'')])
     = ([], Raised (Exc TypeError [Lit ''seed plusargs is not a valid seed value.'']))"
  by (simp add: setup_random_seed_def literal_eval_table_def isinstance_int_def)

section \<open>Properties of the root handle\<close>

lemma root_name_query:
  "\<exists>name. fst (setup_root_handle get_root_handle env) = [GetRootHandle name]"
proof (cases "env ''COCOTB_TOPLEVEL''")
  case None
  then show ?thesis
    by (simp add: setup_root_handle_def split: option.split)
next
  case (Some s)
  show ?thesis
  proof (cases "CHR ''.'' \<in> set (strip s)")
    case True
    then obtain a b where "py_split1 CHR ''.'' (strip s) = [a, b]"
      using py_split1_second by blast
    with Some True show ?thesis
      by (auto simp: setup_root_handle_def Let_def split: option.split)
  next
    case False
    with Some show ?thesis
      by (simp add: setup_root_handle_def Let_def split: option.split)
  qed
qed

text \<open>
  C9. \<open>_setup_root_handle\<close> asks the simulator once, for a name that it computes from
  \<open>COCOTB_TOPLEVEL\<close>: no name when the variable is unset or empty after \<open>strip\<close>;
  the stripped value when it has no dot; what follows the first dot of the stripped value
  otherwise, so that \<open>work.top\<close> gives \<open>top\<close>.  \<open>strip\<close> removes the whitespace
  around a value.  When the simulator returns no handle for that name, the function raises
  a \<open>RuntimeError\<close> whose message holds the \<open>repr\<close> of that name; when it returns a
  handle, the function returns it.
\<close>

theorem setup_root_handle_resolves:
  "(env ''COCOTB_TOPLEVEL'' = None \<longrightarrow>
      fst (setup_root_handle get_root_handle env) = [GetRootHandle None])
   \<and> (env ''COCOTB_TOPLEVEL'' = Some s \<and> strip s = [] \<longrightarrow>
      fst (setup_root_handle get_root_handle env) = [GetRootHandle None])
   \<and> (env ''COCOTB_TOPLEVEL'' = Some s \<and> strip s \<noteq> [] \<and> CHR ''.'' \<notin> set (strip s) \<longrightarrow>
      fst (setup_root_handle get_root_handle env) = [GetRootHandle (Some (strip s))])
   \<and> (env ''COCOTB_TOPLEVEL'' = Some s \<and> strip s = lib @ ''.'' @ rest
        \<and> CHR ''.'' \<notin> set lib \<longrightarrow>
      fst (setup_root_handle get_root_handle env) = [GetRootHandle (Some rest)])
   \<and> (list_all isspace l \<and> list_all isspace r
        \<and> (core = [] \<or> (\<not> isspace (hd core) \<and> \<not> isspace (last core))) \<longrightarrow>
      strip (l @ core @ r) = core)
   \<and> fst (setup_root_handle get_root_handle (map_of [(''COCOTB_TOPLEVEL'', ''work.top'')]))
       = [GetRootHandle (Some ''top'')]
   \<and> (\<exists>name. fst (setup_root_handle get_root_handle env) = [GetRootHandle name]
        \<and> (get_root_handle name = None \<longrightarrow>
             snd (setup_root_handle get_root_handle env) =
               Raised (Exc RuntimeError [Lit ''Can not find root handle '', Repr name]))
        \<and> (\<forall>h. get_root_handle name = Some h \<longrightarrow>
             snd (setup_root_handle get_root_handle env) = Returned (SimHandle h)))"
proof (intro conjI)
  show "env ''COCOTB_TOPLEVEL'' = None \<longrightarrow>
      fst (setup_root_handle get_root_handle env) = [GetRootHandle None]"
    by (simp add: setup_root_handle_def split: option.split)
  show "env ''COCOTB_TOPLEVEL'' = Some s \<and> strip s = [] \<longrightarrow>
      fst (setup_root_handle get_root_handle env) = [GetRootHandle None]"
    by (simp add: setup_root_handle_def split: option.split)
  show "env ''COCOTB_TOPLEVEL'' = Some s \<and> strip s \<noteq> [] \<and> CHR ''.'' \<notin> set (strip s) \<longrightarrow>
      fst (setup_root_handle get_root_handle env) = [GetRootHandle (Some (strip s))]"
    by (simp add: setup_root_handle_def split: option.split)
  show "env ''COCOTB_TOPLEVEL'' = Some s \<and> strip s = lib @ ''.'' @ rest
        \<and> CHR ''.'' \<notin> set lib \<longrightarrow>
      fst (setup_root_handle get_root_handle env) = [GetRootHandle (Some rest)]"
    by (simp add: setup_root_handle_def py_split1_first split: option.split)
  show "list_all isspace l \<and> list_all isspace r
        \<and> (core = [] \<or> (\<not> isspace (hd core) \<and> \<not> isspace (last core))) \<longrightarrow>
      strip (l @ core @ r) = core"
    using strip_trims by blast
  show "fst (setup_root_handle get_root_handle (map_of [(''COCOTB_TOPLEVEL'', ''work.top'')]))
       = [GetRootHandle (Some ''top'')]"
    by (simp add: setup_root_handle_def strip_def isspace_def py_split1_def
        split: option.split)
  obtain name where n: "fst (setup_root_handle get_root_handle env) = [GetRootHandle name]"
    using root_name_query by blast
  have a: "get_root_handle name = None \<longrightarrow>
             snd (setup_root_handle get_root_handle env) =
               Raised (Exc RuntimeError [Lit ''Can not find root handle '', Repr name])"
    using n by (auto simp: setup_root_handle_def split: option.splits outcome.splits)
  have b: "\<forall>h. get_root_handle name = Some h \<longrightarrow>
             snd (setup_root_handle get_root_handle env) = Returned (SimHandle h)"
    using n by (auto simp: setup_root_handle_def split: option.splits outcome.splits)
  from n a b have "fst (setup_root_handle get_root_handle env) = [GetRootHandle name]
        \<and> (get_root_handle name = None \<longrightarrow>
             snd (setup_root_handle get_root_handle env) =
               Raised (Exc RuntimeError [Lit ''Can not find root handle '', Repr name]))
        \<and> (\<forall>h. get_root_handle name = Some h \<longrightarrow>
             snd (setup_root_handle get_root_handle env) = Returned (SimHandle h))"
    by (intro conjI)
  then show "\<exists>name. fst (setup_root_handle get_root_handle env) = [GetRootHandle name]
        \<and> (get_root_handle name = None \<longrightarrow>
             snd (setup_root_handle get_root_handle env) =
               Raised (Exc RuntimeError [Lit ''Can not find root handle '', Repr name]))
        \<and> (\<forall>h. get_root_handle name = Some h \<longrightarrow>
             snd (setup_root_handle get_root_handle env) = Returned (SimHandle h))"
    by (rule exI [where x = name])
qed

theorem setup_root_handle_resolves_witness:
  "fst (setup_root_handle (\<lambda>n. None) Map.empty) = [GetRootHandle None]
   \<and> strip ''  '' = []
   \<and> fst (setup_root_handle (\<lambda>n. None) [''COCOTB_TOPLEVEL'' \<mapsto> ''  '']) = [GetRootHandle None]
   \<and> strip '' top '' = ''top'' \<and> CHR ''.'' \<notin> set ''top''
   \<and> fst (setup_root_handle (\<lambda>n. None) [''COCOTB_TOPLEVEL'' \<mapsto> '' top ''])
       = [GetRootHandle (Some ''top'')]
   \<and> strip '' work.top '' = ''work'' @ ''.'' @ ''top'' \<and> CHR ''.'' \<notin> set ''work''
   \<and> list_all isspace '' '' \<and> \<not> isspace (hd ''work.top'') \<and> \<not> isspace (last ''work.top'')
   \<and> setup_root_handle (\<lambda>n. None) [''COCOTB_TOPLEVEL'' \<mapsto> '' work.top '']
       = ([GetRootHandle (Some ''top'')],
          Raised (Exc RuntimeError [Lit ''Can not find root handle '', Repr (Some ''top'')]))"
proof -
  have s: "strip ''  '' = []" "strip '' top '' = ''top''" "strip '' work.top '' = ''work.top''"
    by (simp_all add: strip_def isspace_def)
  have sp: "list_all isspace '' ''" "\<not> isspace (hd ''work.top'')"
    "\<not> isspace (last ''work.top'')"
    by (simp_all add: isspace_def)
  note w1 = setup_root_handle_resolves
    [of Map.empty "\<lambda>n. None" "[]" "[]" "[]" "[]" "[]" "[]"]
  note w2 = setup_root_handle_resolves
    [of "[''COCOTB_TOPLEVEL'' \<mapsto> ''  '']" "\<lambda>n. None" "''  ''" "[]" "[]" "[]" "[]" "[]"]
  note w3 = setup_root_handle_resolves
    [of "[''COCOTB_TOPLEVEL'' \<mapsto> '' top '']" "\<lambda>n. None" "'' top ''" "[]" "[]"
        "'' ''" "'' ''" "''top''"]
  note w4 = setup_root_handle_resolves
    [of "[''COCOTB_TOPLEVEL'' \<mapsto> '' work.top '']" "\<lambda>n. None" "'' work.top ''"
        "''work''" "''top''" "'' ''" "'' ''" "''work.top''"]
  have 1: "fst (setup_root_handle (\<lambda>n. None) Map.empty) = [GetRootHandle None]"
    using w1 by simp
  have 2: "fst (setup_root_handle (\<lambda>n. None) [''COCOTB_TOPLEVEL'' \<mapsto> ''  ''])
           = [GetRootHandle None]"
    using w2 s(1) by simp
  have 3: "fst (setup_root_handle (\<lambda>n. None) [''COCOTB_TOPLEVEL'' \<mapsto> '' top ''])
           = [GetRootHandle (Some ''top'')]"
    using w3 s(2) by simp
  have 4: "fst (setup_root_handle (\<lambda>n. None) [''COCOTB_TOPLEVEL'' \<mapsto> '' work.top ''])
           = [GetRootHandle (Some ''top'')]"
    using w4 s(3) by simp
  have 5: "snd (setup_root_handle (\<lambda>n. None) [''COCOTB_TOPLEVEL'' \<mapsto> '' work.top ''])
           = Raised (Exc RuntimeError [Lit ''Can not find root handle '', Repr (Some ''top'')])"
    using w4 4 by auto
  from 4 5 have 6: "setup_root_handle (\<lambda>n. None) [''COCOTB_TOPLEVEL'' \<mapsto> '' work.top '']
       = ([GetRootHandle (Some ''top'')],
          Raised (Exc RuntimeError [Lit ''Can not find root handle '', Repr (Some ''top'')]))"
    by (simp add: prod_eq_iff)
  from 1 2 3 6 s sp show ?thesis by simp
qed

section \<open>Properties of the regression manager\<close>

text \<open>
  C10. When \<open>COCOTB_TEST_MODULES\<close> is not empty and holds only commas and whitespace,
  \<open>_setup_regression_manager\<close> does not raise the error of an empty variable, and it
  calls \<open>discover_tests\<close> with no module name.
\<close>

theorem blank_module_list_discovers_nothing:
  assumes "env ''COCOTB_TEST_MODULES'' = Some ms"
    and "ms \<noteq> []"
    and "list_all (\<lambda>c. c = CHR '','' \<or> isspace c) ms"
  shows "take 3 (fst (setup_regression_manager discover_tests env)) =
           [NewRegressionManager, SetupPytestAssertionRewriting, DiscoverTests []]
         \<and> snd (setup_regression_manager discover_tests env) \<noteq>
             Raised (Exc RuntimeError
               [Lit (''Environment variable COCOTB_TEST_MODULES, which defines the module(s) ''
                     @ ''to execute, is not defined or empty.'')])"
proof -
  have "filter (\<lambda>p. strip p \<noteq> []) (py_split CHR '','' ms) = []"
    using assms(3) by (rule blank_list_has_no_entries)
  with assms(1,2) show ?thesis
    by (simp add: setup_regression_manager_def getenv_default_def Let_def
        split: option.split)
qed

theorem blank_module_list_discovers_nothing_witness:
  "map_of [(''COCOTB_TEST_MODULES'', '' , ,'')] ''COCOTB_TEST_MODULES'' = Some '' , ,''
   \<and> '' , ,'' \<noteq> []
   \<and> list_all (\<lambda>c. c = CHR '','' \<or> isspace c) '' , ,''
   \<and> take 3 (fst (setup_regression_manager discover_tests_returns
                    (map_of [(''COCOTB_TEST_MODULES'', '' , ,'')])))
       = [NewRegressionManager, SetupPytestAssertionRewriting, DiscoverTests []]"
proof -
  have h: "list_all (\<lambda>c. c = CHR '','' \<or> isspace c) '' , ,''"
    by (simp add: isspace_def)
  have e: "map_of [(''COCOTB_TEST_MODULES'', '' , ,'')] ''COCOTB_TEST_MODULES'' = Some '' , ,''"
    by simp
  have n: "'' , ,'' \<noteq> []" by simp
  from blank_module_list_discovers_nothing
    [of "map_of [(''COCOTB_TEST_MODULES'', '' , ,'')]" "'' , ,''" discover_tests_returns] e n h
  show ?thesis by blast
qed

text \<open>
  C5, as the code has it.  When \<open>COCOTB_TESTCASE\<close> and \<open>COCOTB_TEST_FILTER\<close> are
  both set and not empty after \<open>strip\<close>, \<open>_setup_regression_manager\<close> ends in an
  exception.  When moreover \<open>COCOTB_TEST_MODULES\<close> is not empty and \<open>discover_tests\<close>
  returns, the exception is the \<open>RuntimeError\<close> of the two filters, raised after the
  call of \<open>discover_tests\<close>, with no filter added and no mode set.  That error is
  never raised before \<open>discover_tests\<close> is called.
\<close>

theorem filter_conflict_raised_after_discovery:
  assumes "env ''COCOTB_TESTCASE'' = Some a" and "strip a \<noteq> []"
    and "env ''COCOTB_TEST_FILTER'' = Some b" and "strip b \<noteq> []"
  shows "raises (snd (setup_regression_manager discover_tests env))
     \<and> (env ''COCOTB_TEST_MODULES'' = Some ms \<and> ms \<noteq> []
          \<and> discover_tests
               (map strip (filter (\<lambda>s. strip s \<noteq> []) (py_split CHR '','' ms))) = None \<longrightarrow>
        setup_regression_manager discover_tests env =
          ([NewRegressionManager, SetupPytestAssertionRewriting,
            DiscoverTests (map strip (filter (\<lambda>s. strip s \<noteq> []) (py_split CHR '','' ms)))],
           Raised (Exc RuntimeError
             [Lit ''Specify only one of COCOTB_TESTCASE or COCOTB_TEST_FILTER''])))
     \<and> (snd (setup_regression_manager discover_tests env) =
           Raised (Exc RuntimeError
             [Lit ''Specify only one of COCOTB_TESTCASE or COCOTB_TEST_FILTER'']) \<longrightarrow>
        list_ex is_DiscoverTests (fst (setup_regression_manager discover_tests env)))"
proof (intro conjI)
  show "raises (snd (setup_regression_manager discover_tests env))"
    using assms
    by (simp add: setup_regression_manager_def getenv_default_def Let_def raises_def
        split: option.split)
  show "env ''COCOTB_TEST_MODULES'' = Some ms \<and> ms \<noteq> []
          \<and> discover_tests
               (map strip (filter (\<lambda>s. strip s \<noteq> []) (py_split CHR '','' ms))) = None \<longrightarrow>
        setup_regression_manager discover_tests env =
          ([NewRegressionManager, SetupPytestAssertionRewriting,
            DiscoverTests (map strip (filter (\<lambda>s. strip s \<noteq> []) (py_split CHR '','' ms)))],
           Raised (Exc RuntimeError
             [Lit ''Specify only one of COCOTB_TESTCASE or COCOTB_TEST_FILTER'']))"
    using assms
    by (simp add: setup_regression_manager_def getenv_default_def Let_def)
  show "snd (setup_regression_manager discover_tests env) =
           Raised (Exc RuntimeError
             [Lit ''Specify only one of COCOTB_TESTCASE or COCOTB_TEST_FILTER'']) \<longrightarrow>
        list_ex is_DiscoverTests (fst (setup_regression_manager discover_tests env))"
    by (simp add: setup_regression_manager_def getenv_default_def Let_def is_DiscoverTests_def
        split: option.split)
qed

theorem filter_conflict_raised_after_discovery_witness:
  "strip ''a'' \<noteq> [] \<and> strip ''b'' \<noteq> [] \<and> ''m'' \<noteq> []
   \<and> discover_tests_returns
        (map strip (filter (\<lambda>s. strip s \<noteq> []) (py_split CHR '','' ''m''))) = None
   \<and> setup_regression_manager discover_tests_returns
        [''COCOTB_TEST_MODULES'' \<mapsto> ''m'', ''COCOTB_TESTCASE'' \<mapsto> ''a'',
         ''COCOTB_TEST_FILTER'' \<mapsto> ''b'']
       = ([NewRegressionManager, SetupPytestAssertionRewriting, DiscoverTests [''m'']],
          Raised (Exc RuntimeError
            [Lit ''Specify only one of COCOTB_TESTCASE or COCOTB_TEST_FILTER'']))"
proof -
  have s: "strip ''a'' = ''a''" "strip ''b'' = ''b''" "strip ''m'' = ''m''"
    by (simp_all add: strip_def isspace_def)
  have d: "discover_tests_returns
        (map strip (filter (\<lambda>s. strip s \<noteq> []) (py_split CHR '','' ''m''))) = None"
    by (simp add: discover_tests_returns_def)
  from filter_conflict_raised_after_discovery
    [of "[''COCOTB_TEST_MODULES'' \<mapsto> ''m'', ''COCOTB_TESTCASE'' \<mapsto> ''a'',
          ''COCOTB_TEST_FILTER'' \<mapsto> ''b'']" "''a''" "''b''" discover_tests_returns "''m''"]
    s d
  show ?thesis by simp
qed

text \<open>
  C5, as the specification states it: with both filters set, the function raises, and it
  raises before test discovery.  On the code this does not hold for the modules \<open>m\<close> and
  the filters \<open>a\<close> and \<open>b\<close>: \<open>discover_tests\<close> has been called when the function
  raises.
\<close>

theorem filter_conflict_before_discovery_counterexample:
  "\<not> (raises (snd (setup_regression_manager discover_tests_returns
         (map_of [(''COCOTB_TEST_MODULES'', ''m''), (''COCOTB_TESTCASE'', ''a''),
                  (''COCOTB_TEST_FILTER'', ''b'')])))
      \<and> \<not> list_ex is_DiscoverTests
            (fst (setup_regression_manager discover_tests_returns
              (map_of [(''COCOTB_TEST_MODULES'', ''m''), (''COCOTB_TESTCASE'', ''a''),
                       (''COCOTB_TEST_FILTER'', ''b'')]))))"
  by (simp add: setup_regression_manager_def getenv_default_def Let_def
      discover_tests_returns_def strip_def isspace_def is_DiscoverTests_def)

end
